theory Spec2Isabelle
  imports Complex_Main
begin

section \<open>Python strings\<close>

text \<open>
  The verifier of \<^verbatim>\<open>src/services/enhanced_synthesis_engine.py\<close> works on Python
  \<^verbatim>\<open>str\<close> values. A text is modelled as a \<^typ>\<open>string\<close> whose characters are the
  code points 0..255 (Latin-1, which holds every accented letter of the Portuguese
  word lists of the source), so \<^term>\<open>length\<close> counts code points as Python's
  \<^verbatim>\<open>len\<close> does. Python floats are modelled as exact \<^typ>\<open>real\<close> numbers:
  rounding is not part of the model.
\<close>

definition isspace :: "char \<Rightarrow> bool" where
  \<comment> \<open>\<^verbatim>\<open>str.isspace\<close> on the code points below 256.\<close>
  "isspace c = (c \<in> set [CHR 0x09, CHR 0x0A, CHR 0x0B, CHR 0x0C, CHR 0x0D,
                           CHR 0x1C, CHR 0x1D, CHR 0x1E, CHR 0x1F, CHR 0x20,
                           CHR 0x85, CHR 0xA0])"

definition strip :: "string \<Rightarrow> string" where
  \<comment> \<open>\<^verbatim>\<open>s.strip()\<close>\<close>
  "strip s = rev (dropWhile isspace (rev (dropWhile isspace s)))"

fun split_from :: "string \<Rightarrow> string \<Rightarrow> string list" where
  "split_from cur [] = (if cur = [] then [] else [cur])"
| "split_from cur (c # cs) =
     (if isspace c then (if cur = [] then split_from [] cs else cur # split_from [] cs)
      else split_from (cur @ [c]) cs)"

definition split :: "string \<Rightarrow> string list" where
  \<comment> \<open>\<^verbatim>\<open>s.split()\<close>: the maximal runs of characters that are not whitespace.\<close>
  "split s = split_from [] s"

definition lower_char :: "char \<Rightarrow> char" where
  \<comment> \<open>\<^verbatim>\<open>A-Z\<close> and the Latin-1 capitals 0xC0..0xDE (0xD7 is the multiplication sign).\<close>
  "lower_char c =
     (let n = (of_char c :: nat) in
      if (65 \<le> n \<and> n \<le> 90) \<or> (192 \<le> n \<and> n \<le> 222 \<and> n \<noteq> 215)
      then char_of (n + 32) else c)"

definition lower :: "string \<Rightarrow> string" where
  \<comment> \<open>\<^verbatim>\<open>s.lower()\<close>\<close>
  "lower s = map lower_char s"

fun starts_with :: "string \<Rightarrow> string \<Rightarrow> bool" where
  "starts_with [] s = True"
| "starts_with (p # ps) [] = False"
| "starts_with (p # ps) (c # cs) = (p = c \<and> starts_with ps cs)"

fun contains :: "string \<Rightarrow> string \<Rightarrow> bool" where
  \<comment> \<open>\<^verbatim>\<open>sub in s\<close> on strings: \<open>contains s sub\<close>.\<close>
  "contains [] sub = (sub = [])"
| "contains (c # cs) sub = (starts_with sub (c # cs) \<or> contains cs sub)"

fun join :: "string \<Rightarrow> string list \<Rightarrow> string" where
  \<comment> \<open>\<^verbatim>\<open>sep.join(parts)\<close>\<close>
  "join sep [] = []"
| "join sep [p] = p"
| "join sep (p # q # ps) = p @ sep @ join sep (q # ps)"

definition digit_char :: "nat \<Rightarrow> char" where
  "digit_char d = char_of (48 + d)"

function str_nat :: "nat \<Rightarrow> string" where
  \<comment> \<open>\<^verbatim>\<open>str(n)\<close> for a natural number, as the f-string \<^verbatim>\<open>f'item_{n}'\<close> prints it.\<close>
  "str_nat n = (if n < 10 then [digit_char n] else str_nat (n div 10) @ [digit_char (n mod 10)])"
  by pat_completeness auto
termination
  by (relation "measure id") auto

definition get_or :: "'a \<Rightarrow> 'a option \<Rightarrow> 'a" where
  \<comment> \<open>\<^verbatim>\<open>d.get(key, default)\<close> with the looked-up entry as an option.\<close>
  "get_or d x = (case x of None \<Rightarrow> d | Some v \<Rightarrow> v)"

section \<open>Configuration\<close>

text \<open>
  \<^verbatim>\<open>_load_verifier_config\<close>: the thresholds are a dictionary read with
  \<^verbatim>\<open>.get(key, default)\<close>, the term lists and the rule list are lists. The settings
  that no verifier component reads (\<^verbatim>\<open>llm_reasoning\<close>, the \<^verbatim>\<open>enabled\<close> switches,
  \<^verbatim>\<open>rhetoric_devices\<close>) are left out.
\<close>

record rule =
  rule_name :: string
  rule_condition :: string
  action_status :: string
  action_reason :: string

record bias_detection_config =
  bias_keywords :: "string list"
  disinformation_patterns :: "string list"

record verifier_config =
  thresholds :: "string \<rightharpoonup> real"
  bias_detection :: bias_detection_config
  rules :: "rule list"

definition reason_high_confidence :: string where
  \<comment> \<open>\<^verbatim>\<open>'Alta confianca no conteudo'\<close> with its cedilla and acute accent (Latin-1).\<close>
  "reason_high_confidence = ''Alta confian'' @ [CHR 0xE7] @ ''a no conte'' @ [CHR 0xFA] @ ''do''"

definition reason_high_risk :: string where
  \<comment> \<open>\<^verbatim>\<open>'Alto risco de vies/desinformacao'\<close>: high risk of bias/disinformation.\<close>
  "reason_high_risk =
     ''Alto risco de vi'' @ [CHR 0xE9] @ ''s/desinforma'' @ [CHR 0xE7, CHR 0xE3] @ ''o''"

definition reason_default_approved :: string where
  \<comment> \<open>\<^verbatim>\<open>'Analise padrao aprovada'\<close>: standard analysis approved.\<close>
  "reason_default_approved = ''An'' @ [CHR 0xE1] @ ''lise padr'' @ [CHR 0xE3] @ ''o aprovada''"

definition reason_combined_approved :: string where
  "reason_combined_approved = ''Aprovado com base na an'' @ [CHR 0xE1] @ ''lise combinada''"

definition reason_combined_rejected :: string where
  "reason_combined_rejected = ''Rejeitado com base na an'' @ [CHR 0xE1] @ ''lise combinada''"

definition reason_ambiguity :: string where
  \<comment> \<open>\<^verbatim>\<open>'Rejeitado por ambiguidade - politica de seguranca'\<close>: rejected for ambiguity,
      security policy.\<close>
  "reason_ambiguity =
     ''Rejeitado por ambiguidade - pol'' @ [CHR 0xED] @ ''tica de seguran'' @ [CHR 0xE7] @ ''a''"

definition reason_insufficient :: string where
  \<comment> \<open>\<^verbatim>\<open>'Conteudo textual insuficiente'\<close>: insufficient textual content.\<close>
  "reason_insufficient = ''Conte'' @ [CHR 0xFA] @ ''do textual insuficiente''"

definition load_verifier_config :: verifier_config where
  "load_verifier_config =
     \<lparr> thresholds = [''approval'' \<mapsto> 0.75, ''rejection'' \<mapsto> 0.35, ''high_confidence'' \<mapsto> 0.85,
                     ''low_confidence'' \<mapsto> 0.5, ''bias_high_risk'' \<mapsto> 0.7],
       bias_detection =
         \<lparr> bias_keywords = [''sempre'', ''nunca'', ''todos'', ''ningu'' @ [CHR 0xE9] @ ''m'',
                             ''obviamente'', ''claramente''],
           disinformation_patterns = [''fake news'', ''not'' @ [CHR 0xED] @ ''cia falsa'',
                             ''teoria da conspira'' @ [CHR 0xE7, CHR 0xE3] @ ''o''] \<rparr>,
       rules =
         [\<lparr> rule_name = ''high_confidence_approval'',
             rule_condition = ''overall_confidence >= 0.85'',
             action_status = ''approved'', action_reason = reason_high_confidence \<rparr>,
          \<lparr> rule_name = ''high_risk_bias_rejection'',
             rule_condition = ''overall_risk >= 0.7'',
             action_status = ''rejected'', action_reason = reason_high_risk \<rparr>] \<rparr>"

section \<open>Signal extractors\<close>

text \<open>
  Each analyzer returns a dictionary; it is a record here. The entries that the decision
  code reads with \<^verbatim>\<open>.get(key, default)\<close> are options, so that the default is a branch
  of the model.
\<close>

record sentiment_result =
  polarity :: real
  classification :: string
  confidence :: "real option"

record bias_result =
  bias_score :: "real option"
  disinformation_score :: "real option"
  overall_risk :: "real option"
  detected_bias_keywords :: "string list"
  detected_disinformation_patterns :: "string list"
  bias_confidence :: "real option"

record contextual_result =
  contextual_confidence :: "real option"
  consistency_score :: real
  source_reliability_score :: real
  temporal_coherence_score :: real
  context_flags :: "string list"

definition positive_words :: "string list" where
  "positive_words = [''bom'', [CHR 0xF3] @ ''timo'', ''excelente'', ''maravilhoso'', ''perfeito'',
                     ''incr'' @ [CHR 0xED] @ ''vel'', ''fant'' @ [CHR 0xE1] @ ''stico'']"

definition negative_words :: "string list" where
  "negative_words = [''ruim'', ''p'' @ [CHR 0xE9] @ ''ssimo'', ''terr'' @ [CHR 0xED] @ ''vel'',
                     ''horr'' @ [CHR 0xED] @ ''vel'', ''problema'', ''erro'', ''falha'']"

definition analyze_sentiment :: "string \<Rightarrow> sentiment_result" where
  \<comment> \<open>\<^verbatim>\<open>BasicSentimentAnalyzer.analyze_sentiment\<close>\<close>
  "analyze_sentiment text =
     (if text = [] then \<lparr> polarity = 0, classification = ''neutral'', confidence = Some 0.5 \<rparr>
      else
        let text_lower = lower text;
            positive_count = length (filter (contains text_lower) positive_words);
            negative_count = length (filter (contains text_lower) negative_words);
            total_words = length (split text_lower)
        in if total_words = 0
           then \<lparr> polarity = 0, classification = ''neutral'', confidence = Some 0.5 \<rparr>
           else
             let pol = (real positive_count - real negative_count) / real (max total_words 1)
             in \<lparr> polarity = pol,
                  classification = (if pol > 0.05 then ''positive''
                                    else if pol < - 0.05 then ''negative'' else ''neutral''),
                  confidence = Some (min (\<bar>pol\<bar> * 5 + 0.3) 1) \<rparr>)"

definition detect_bias_disinformation :: "bias_detection_config \<Rightarrow> string \<Rightarrow> bias_result" where
  \<comment> \<open>\<^verbatim>\<open>BasicBiasDetector.detect_bias_disinformation\<close>\<close>
  "detect_bias_disinformation config text =
     (if text = []
      then \<lparr> bias_score = None, disinformation_score = None, overall_risk = Some 0,
             detected_bias_keywords = [], detected_disinformation_patterns = [],
             bias_confidence = None \<rparr>
      else
        let text_lower = lower text;
            detected_bias = filter (contains text_lower) (bias_keywords config);
            detected_disinfo = filter (contains text_lower) (disinformation_patterns config);
            b_score = min (real (length detected_bias) * 0.1) 1;
            d_score = min (real (length detected_disinfo) * 0.2) 1
        in \<lparr> bias_score = Some b_score, disinformation_score = Some d_score,
             overall_risk = Some (b_score * 0.4 + d_score * 0.6),
             detected_bias_keywords = detected_bias,
             detected_disinformation_patterns = detected_disinfo,
             bias_confidence =
               Some (if detected_bias = [] \<and> detected_disinfo = [] then 0.5 else 0.7) \<rparr>)"

type_synonym item_data = "string \<rightharpoonup> string"

type_synonym massive_data = "string \<rightharpoonup> string"

definition analyze_context :: "item_data \<Rightarrow> massive_data option \<Rightarrow> contextual_result" where
  \<comment> \<open>\<^verbatim>\<open>BasicContextualAnalyzer.analyze_context\<close>\<close>
  "analyze_context item massive =
     (let consistency = 0.7; source_reliability = 0.6; temporal_coherence = 0.7
      in \<lparr> contextual_confidence =
             Some (consistency * 0.4 + source_reliability * 0.4 + temporal_coherence * 0.2),
           consistency_score = consistency,
           source_reliability_score = source_reliability,
           temporal_coherence_score = temporal_coherence,
           context_flags = [] \<rparr>)"

section \<open>Rule engine, thresholds and the final decision\<close>

record analysis_result =
  item_id :: string
  original_item :: item_data
  sentiment_analysis :: sentiment_result
  bias_disinformation_analysis :: bias_result
  contextual_analysis :: contextual_result

record rule_result =
  rule_status :: string
  rule_reason :: string
  triggered_rules :: "string list"

definition apply_rules :: "rule list \<Rightarrow> analysis_result \<Rightarrow> rule_result" where
  \<comment> \<open>\<^verbatim>\<open>BasicRuleEngine.apply_rules\<close>. The first argument is \<^verbatim>\<open>self.rules\<close>, which the
      constructor stores and the method never reads.\<close>
  "apply_rules self_rules analysis =
     (let bias = bias_disinformation_analysis analysis;
          risk = get_or 0 (overall_risk bias)
      in if risk \<ge> 0.7
         then \<lparr> rule_status = ''rejected'', rule_reason = reason_high_risk,
                triggered_rules = [''high_risk_bias_rejection''] \<rparr>
         else \<lparr> rule_status = ''approved'', rule_reason = reason_default_approved,
                triggered_rules = [] \<rparr>)"

definition should_approve :: "(string \<rightharpoonup> real) \<Rightarrow> real \<Rightarrow> bool" where
  "should_approve ths c = (c \<ge> get_or 0.75 (ths ''approval''))"

definition should_reject :: "(string \<rightharpoonup> real) \<Rightarrow> real \<Rightarrow> bool" where
  "should_reject ths c = (c \<le> get_or 0.35 (ths ''rejection''))"

record confidence_breakdown =
  sentiment_contribution :: real
  bias_contribution :: real
  contextual_contribution :: real

record ai_review =
  status :: string
  reason :: string
  final_confidence :: real
  breakdown :: "confidence_breakdown option"
  error :: bool
  insufficient_content :: bool

definition make_final_decision ::
  "(string \<rightharpoonup> real) \<Rightarrow> analysis_result \<Rightarrow> rule_result \<Rightarrow> ai_review" where
  \<comment> \<open>\<^verbatim>\<open>_make_final_decision\<close>; \<^verbatim>\<open>sum(confidences)\<close> adds the three terms from 0 in
      list order. The \<^verbatim>\<open>processing_metadata\<close> (a timestamp and a version) is left out,
      and the \<^verbatim>\<open>except\<close> branch guards type errors that the typed records exclude.\<close>
  "make_final_decision ths analysis rule_res =
     (let sentiment = sentiment_analysis analysis;
          bias = bias_disinformation_analysis analysis;
          contextual = contextual_analysis analysis;
          confidences = [get_or 0.5 (confidence sentiment) * 0.2,
                         (1 - get_or 0.5 (overall_risk bias)) * 0.3,
                         get_or 0.5 (contextual_confidence contextual) * 0.5];
          final = foldl (+) 0 confidences;
          decided =
            (if rule_status rule_res \<in> set [''approved'', ''rejected'']
             then (rule_status rule_res, rule_reason rule_res)
             else if should_approve ths final then (''approved'', reason_combined_approved)
             else if should_reject ths final then (''rejected'', reason_combined_rejected)
             else (''rejected'', reason_ambiguity))
      in \<lparr> status = fst decided, reason = snd decided, final_confidence = final,
           breakdown = Some
             \<lparr> sentiment_contribution = get_or 0.5 (confidence sentiment) * 0.2,
               bias_contribution = (1 - get_or 0.5 (overall_risk bias)) * 0.3,
               contextual_contribution = get_or 0.5 (contextual_confidence contextual) * 0.5 \<rparr>,
           error = False, insufficient_content = False \<rparr>)"

section \<open>The engine and the verification of one item\<close>

text \<open>
  An item is a dictionary; its text-bearing fields and its \<^verbatim>\<open>id\<close> are strings, so it
  is a map from field names to strings (a field that is absent, \<^verbatim>\<open>None\<close> or empty is
  skipped alike by the source). The engine object holds the configuration, the three
  analyzers and the running counters. An analyzer call that raises is modelled as
  \<^term>\<open>Inl msg\<close>, with \<open>msg\<close> the text of the exception.
\<close>

record verification_stats =
  total_verified :: nat
  approved :: nat
  rejected :: nat

record engine =
  config :: verifier_config
  sentiment_analyzer :: "string \<Rightarrow> string + sentiment_result"
  bias_detector :: "string \<Rightarrow> string + bias_result"
  contextual_analyzer :: "item_data \<Rightarrow> massive_data option \<Rightarrow> string + contextual_result"
  stats :: verification_stats

definition initialize_verifier_components :: "verifier_config \<Rightarrow> engine" where
  \<comment> \<open>\<^verbatim>\<open>_initialize_verifier_components\<close>: the three basic analyzers, none of which
      raises on a string, and the counters at zero.\<close>
  "initialize_verifier_components cfg =
     \<lparr> config = cfg,
       sentiment_analyzer = (\<lambda>text. Inr (analyze_sentiment text)),
       bias_detector = (\<lambda>text. Inr (detect_bias_disinformation (bias_detection cfg) text)),
       contextual_analyzer = (\<lambda>item massive. Inr (analyze_context item massive)),
       stats = \<lparr> total_verified = 0, approved = 0, rejected = 0 \<rparr> \<rparr>"

definition EnhancedSynthesisEngine :: engine where
  \<comment> \<open>\<^verbatim>\<open>__init__\<close>\<close>
  "EnhancedSynthesisEngine = initialize_verifier_components load_verifier_config"

definition priority_fields :: "string list" where
  "priority_fields = [''content'', ''text'', ''description'', ''title'', ''summary'']"

fun text_parts :: "item_data \<Rightarrow> string list \<Rightarrow> string list" where
  \<comment> \<open>The loop of \<^verbatim>\<open>_extract_text_content\<close> over the fields.\<close>
  "text_parts item [] = []"
| "text_parts item (field # rest) =
     (case item field of
        None \<Rightarrow> text_parts item rest
      | Some v \<Rightarrow>
          if v \<noteq> [] \<and> strip v \<noteq> [] then strip v # text_parts item rest
          else text_parts item rest)"

definition extract_text_content :: "item_data \<Rightarrow> string" where
  "extract_text_content item = strip (join '' '' (text_parts item priority_fields))"

record verification_result =
  result_item_id :: string
  analysis :: "analysis_result option"
  review :: ai_review

definition create_insufficient_content_result :: "item_data \<Rightarrow> verification_result" where
  "create_insufficient_content_result item =
     \<lparr> result_item_id = get_or ''sem_id'' (item ''id''),
       analysis = None,
       review = \<lparr> status = ''rejected'', reason = reason_insufficient, final_confidence = 0,
                  breakdown = None, error = False, insufficient_content = True \<rparr> \<rparr>"

definition create_error_result :: "item_data \<Rightarrow> string \<Rightarrow> verification_result" where
  "create_error_result item error_message =
     \<lparr> result_item_id = get_or ''sem_id'' (item ''id''),
       analysis = None,
       review = \<lparr> status = ''rejected'', reason = ''Erro: '' @ error_message,
                  final_confidence = 0, breakdown = None, error = True,
                  insufficient_content = False \<rparr> \<rparr>"

definition update_verification_stats :: "verification_stats \<Rightarrow> string \<Rightarrow> verification_stats" where
  "update_verification_stats st s =
     (let st1 = st\<lparr> total_verified := total_verified st + 1 \<rparr>
      in if s = ''approved'' then st1\<lparr> approved := approved st1 + 1 \<rparr>
         else if s = ''rejected'' then st1\<lparr> rejected := rejected st1 + 1 \<rparr>
         else st1)"

definition verify_content_item ::
  "engine \<Rightarrow> item_data \<Rightarrow> massive_data option \<Rightarrow> verification_result \<times> engine" where
  \<comment> \<open>\<^verbatim>\<open>verify_content_item\<close>: the result and the engine with its counters updated. The
      \<^verbatim>\<open>try/except\<close> around the body turns a raising analyzer into the error result;
      the clock readings and the constant \<^verbatim>\<open>llm_reasoning_analysis\<close> entry are left out.\<close>
  "verify_content_item self item massive =
     (let ident = get_or (''item_'' @ str_nat (total_verified (stats self))) (item ''id'');
          text_content = extract_text_content item
      in if text_content = [] \<or> length (strip text_content) < 5
         then (create_insufficient_content_result item, self)
         else
           case sentiment_analyzer self text_content of
             Inl e \<Rightarrow> (create_error_result item e, self)
           | Inr sentiment_res \<Rightarrow>
           (case bias_detector self text_content of
             Inl e \<Rightarrow> (create_error_result item e, self)
           | Inr bias_res \<Rightarrow>
           (case contextual_analyzer self item massive of
             Inl e \<Rightarrow> (create_error_result item e, self)
           | Inr contextual_res \<Rightarrow>
               let analysis_res =
                     \<lparr> item_id = ident, original_item = item,
                       sentiment_analysis = sentiment_res,
                       bias_disinformation_analysis = bias_res,
                       contextual_analysis = contextual_res \<rparr>;
                   rule_res = apply_rules (rules (config self)) analysis_res;
                   final_decision =
                     make_final_decision (thresholds (config self)) analysis_res rule_res
               in (\<lparr> result_item_id = ident, analysis = Some analysis_res,
                      review = final_decision \<rparr>,
                   self\<lparr> stats := update_verification_stats (stats self)
                                     (status final_decision) \<rparr>))))"

section \<open>Batch statistics and main issues\<close>

text \<open>
  \<^verbatim>\<open>src/services/ai_verification_service.py\<close> compiles the per-item results of a batch.
  The entries of \<^verbatim>\<open>_compile_verification_result\<close> that are clock readings or
  recommendation texts are left out.
\<close>

record issue =
  issue_item_id :: string
  issue_type :: string
  issue_reason :: string
  issue_risk :: "real option"
  issue_confidence :: "real option"
  issue_details :: "string list"

definition result_risk :: "verification_result \<Rightarrow> real" where
  \<comment> \<open>\<^verbatim>\<open>result.get('bias_disinformation_analysis', {}).get('overall_risk', 0)\<close>\<close>
  "result_risk r =
     (case analysis r of
        None \<Rightarrow> 0
      | Some a \<Rightarrow> get_or 0 (overall_risk (bias_disinformation_analysis a)))"

definition rejection_issue :: "verification_result \<Rightarrow> issue" where
  "rejection_issue r =
     \<lparr> issue_item_id = result_item_id r, issue_type = ''rejection'',
       issue_reason = reason (review r), issue_risk = None,
       issue_confidence = Some (final_confidence (review r)), issue_details = [] \<rparr>"

definition high_bias_issue :: "verification_result \<Rightarrow> issue" where
  \<comment> \<open>The reason is the f-string \<^verbatim>\<open>'Alto risco de vies detectado: {risk:.2f}'\<close>; the number
      it prints is kept in \<open>issue_risk\<close>, unformatted.\<close>
  "high_bias_issue r =
     \<lparr> issue_item_id = result_item_id r, issue_type = ''high_bias_risk'',
       issue_reason = ''Alto risco de vi'' @ [CHR 0xE9] @ ''s detectado: '',
       issue_risk = Some (result_risk r), issue_confidence = None,
       issue_details =
         (case analysis r of
            None \<Rightarrow> []
          | Some a \<Rightarrow> detected_bias_keywords (bias_disinformation_analysis a)) \<rparr>"

definition add_issues :: "issue list \<Rightarrow> verification_result \<Rightarrow> issue list" where
  \<comment> \<open>One round of the loop of \<^verbatim>\<open>_identify_main_issues\<close>.\<close>
  "add_issues issues r =
     (let issues1 = (if status (review r) = ''rejected'' then issues @ [rejection_issue r]
                     else issues)
      in if result_risk r > 0.6 then issues1 @ [high_bias_issue r] else issues1)"

definition identify_main_issues :: "verification_result list \<Rightarrow> issue list" where
  "identify_main_issues results = take 10 (foldl add_issues [] results)"

definition item_issues :: "verification_result \<Rightarrow> issue list" where
  \<comment> \<open>The entries that one result contributes, used to state what the loop computes.\<close>
  "item_issues r = (if status (review r) = ''rejected'' then [rejection_issue r] else [])
                   @ (if result_risk r > 0.6 then [high_bias_issue r] else [])"

record statistics =
  total_items_analyzed :: nat
  items_approved :: nat
  items_rejected :: nat
  items_with_errors :: nat
  approval_rate :: real
  average_confidence :: real

record verification_summary =
  high_confidence_items :: nat
  medium_confidence_items :: nat
  low_confidence_items :: nat

record batch_report =
  batch_statistics :: statistics
  main_issues :: "issue list"
  detailed_results :: "verification_result list"
  overall_status :: string
  quality_score :: real
  summary :: verification_summary

definition count_where :: "('a \<Rightarrow> bool) \<Rightarrow> 'a list \<Rightarrow> nat" where
  \<comment> \<open>\<^verbatim>\<open>sum(1 for r in results if p(r))\<close>\<close>
  "count_where p results = length (filter p results)"

definition compile_verification_result :: "verification_result list \<Rightarrow> batch_report" where
  "compile_verification_result results =
     (let total_items = length results;
          approved_items = count_where (\<lambda>r. status (review r) = ''approved'') results;
          rejected_items = count_where (\<lambda>r. status (review r) = ''rejected'') results;
          error_items = count_where (\<lambda>r. status (review r) = ''error'') results;
          confidences = map (\<lambda>r. final_confidence (review r)) results;
          avg_confidence = (if confidences \<noteq> []
                            then foldl (+) 0 confidences / real (length confidences) else 0)
      in \<lparr> batch_statistics =
             \<lparr> total_items_analyzed = total_items,
               items_approved = approved_items,
               items_rejected = rejected_items,
               items_with_errors = error_items,
               approval_rate = (if total_items > 0
                                then real approved_items / real total_items * 100 else 0),
               average_confidence = avg_confidence \<rparr>,
           main_issues = identify_main_issues results,
           detailed_results = results,
           overall_status = (if approved_items > rejected_items then ''approved''
                             else ''rejected''),
           quality_score = avg_confidence * 100,
           summary =
             \<lparr> high_confidence_items =
                 count_where (\<lambda>r. final_confidence (review r) > 0.8) results,
               medium_confidence_items =
                 count_where (\<lambda>r. 0.5 \<le> final_confidence (review r)
                                    \<and> final_confidence (review r) \<le> 0.8) results,
               low_confidence_items =
                 count_where (\<lambda>r. final_confidence (review r) < 0.5) results \<rparr> \<rparr>)"

section \<open>Sample inputs\<close>

text \<open>
  Concrete items and engines on which the theorems below are instantiated. With the
  term lists of \<^const>\<open>load_verifier_config\<close> (six keywords, three phrases) the overall
  risk is at most 0.6, so \<open>strict_config\<close> adds two phrases to exercise the rule on
  high risk. \<open>failing_sentiment_engine\<close> is the engine with a sentiment analyzer that
  raises; \<open>neutral_sentiment_engine\<close> has one that returns the neutral value instead.
  \<open>override_config\<close> changes the declared rule list only.
\<close>

definition sample_item :: item_data where
  "sample_item = [''id'' \<mapsto> ''web_001'', ''content'' \<mapsto> ''hello world'']"

definition short_item :: item_data where
  "short_item = [''id'' \<mapsto> ''web_002'', ''title'' \<mapsto> '' ok '']"

definition strict_config :: verifier_config where
  "strict_config =
     load_verifier_config
       \<lparr> bias_detection :=
           \<lparr> bias_keywords = bias_keywords (bias_detection load_verifier_config),
             disinformation_patterns = [''fake news'', ''boato'', ''farsa'', ''fraude'',
                                        ''mentira''] \<rparr> \<rparr>"

definition risky_item :: item_data where
  "risky_item = [''id'' \<mapsto> ''web_003'',
                 ''content'' \<mapsto> ''fake news, boato, farsa, fraude, mentira: sempre, nunca, todos'']"

definition failing_sentiment_engine :: engine where
  "failing_sentiment_engine =
     EnhancedSynthesisEngine \<lparr> sentiment_analyzer := (\<lambda>text. Inl ''boom'') \<rparr>"

definition neutral_sentiment_engine :: engine where
  "neutral_sentiment_engine =
     EnhancedSynthesisEngine
       \<lparr> sentiment_analyzer :=
           (\<lambda>text. Inr \<lparr> polarity = 0, classification = ''neutral'', confidence = Some 0.5 \<rparr>) \<rparr>"




section \<open>Rule precedence as the specification states it\<close>



section \<open>Facts about the string functions\<close>

lemma length_strip_le: "length (strip s) \<le> length s"
proof -
  have "length (strip s) \<le> length (dropWhile isspace s)"
    using length_dropWhile_le [of isspace "rev (dropWhile isspace s)"] by (simp add: strip_def)
  also have "\<dots> \<le> length s" by (rule length_dropWhile_le)
  finally show ?thesis .
qed

lemma dropWhile_unchanged: "xs = [] \<or> \<not> P (hd xs) \<Longrightarrow> dropWhile P xs = xs"
  by (cases xs) auto

lemma strip_strip: "strip (strip s) = strip s"
proof -
  define t where "t = dropWhile isspace s"
  define u where "u = rev (dropWhile isspace (rev t))"
  have su: "strip s = u" by (simp add: strip_def t_def u_def)
  have "rev (u @ rev (takeWhile isspace (rev t))) = rev t"
    by (simp add: u_def)
  then have t_eq: "t = u @ rev (takeWhile isspace (rev t))"
    by (simp only: rev_is_rev_conv)
  have d1: "dropWhile isspace u = u"
  proof (cases u)
    case Nil
    then show ?thesis by simp
  next
    case (Cons a as)
    then have "t \<noteq> []" using t_eq by auto
    then have "\<not> isspace (hd t)" unfolding t_def by (rule hd_dropWhile)
    moreover have "hd t = a" using t_eq Cons by (metis hd_append2 list.sel(1) list.distinct(1))
    ultimately show ?thesis using Cons by simp
  qed
  have ru: "rev u = dropWhile isspace (rev t)" by (simp add: u_def)
  have d2: "dropWhile isspace (rev u) = rev u"
  proof (rule dropWhile_unchanged, cases "rev u = []")
    case True
    then show "rev u = [] \<or> \<not> isspace (hd (rev u))" by simp
  next
    case False
    then have "\<not> isspace (hd (dropWhile isspace (rev t)))"
      unfolding ru by (rule hd_dropWhile)
    then show "rev u = [] \<or> \<not> isspace (hd (rev u))" by (simp add: ru)
  qed
  have "strip u = u" by (simp add: strip_def d1 d2)
  then show ?thesis by (simp add: su)
qed

lemma strip_extract_text_content: "strip (extract_text_content item) = extract_text_content item"
  by (simp add: extract_text_content_def strip_strip)

section \<open>Facts about the pipeline\<close>

lemma verify_content_item_insufficient:
  assumes "length (extract_text_content item) < 5"
  shows "verify_content_item self item massive = (create_insufficient_content_result item, self)"
proof -
  have "length (strip (extract_text_content item)) < 5"
    using assms by (simp add: strip_extract_text_content)
  then show ?thesis by (simp add: verify_content_item_def Let_def)
qed

lemma verify_content_item_sufficient:
  assumes len: "5 \<le> length (extract_text_content item)"
    and s: "sentiment_analyzer self (extract_text_content item) = Inr s"
    and b: "bias_detector self (extract_text_content item) = Inr b"
    and c: "contextual_analyzer self item massive = Inr c"
    and a: "a = \<lparr> item_id = get_or (''item_'' @ str_nat (total_verified (stats self))) (item ''id''),
                    original_item = item, sentiment_analysis = s,
                    bias_disinformation_analysis = b, contextual_analysis = c \<rparr>"
  shows "fst (verify_content_item self item massive) =
           \<lparr> result_item_id = item_id a, analysis = Some a,
             review = make_final_decision (thresholds (config self)) a
                        (apply_rules (rules (config self)) a) \<rparr>"
proof -
  have "\<not> length (strip (extract_text_content item)) < 5"
    using len by (simp add: strip_extract_text_content)
  moreover have "extract_text_content item \<noteq> []" using len by auto
  ultimately show ?thesis
    by (simp add: verify_content_item_def Let_def s b c a)
qed

lemma apply_rules_status:
  "rule_status (apply_rules rs a) =
     (if get_or 0 (overall_risk (bias_disinformation_analysis a)) \<ge> 0.7
      then ''rejected'' else ''approved'')"
  by (simp add: apply_rules_def Let_def)

lemma apply_rules_reason:
  "rule_reason (apply_rules rs a) =
     (if get_or 0 (overall_risk (bias_disinformation_analysis a)) \<ge> 0.7
      then reason_high_risk else reason_default_approved)"
  by (simp add: apply_rules_def Let_def)

lemma make_final_decision_rule:
  "status (make_final_decision ths a (apply_rules rs a)) = rule_status (apply_rules rs a)
   \<and> reason (make_final_decision ths a (apply_rules rs a)) = rule_reason (apply_rules rs a)"
  by (simp add: make_final_decision_def apply_rules_def Let_def)

lemma make_final_decision_confidence:
  "final_confidence (make_final_decision ths a rr) =
     get_or 0.5 (confidence (sentiment_analysis a)) * 0.2
     + (1 - get_or 0.5 (overall_risk (bias_disinformation_analysis a))) * 0.3
     + get_or 0.5 (contextual_confidence (contextual_analysis a)) * 0.5"
  by (simp add: make_final_decision_def Let_def)

lemma make_final_decision_breakdown:
  "breakdown (make_final_decision ths a rr) =
     Some \<lparr> sentiment_contribution = get_or 0.5 (confidence (sentiment_analysis a)) * 0.2,
            bias_contribution =
              (1 - get_or 0.5 (overall_risk (bias_disinformation_analysis a))) * 0.3,
            contextual_contribution =
              get_or 0.5 (contextual_confidence (contextual_analysis a)) * 0.5 \<rparr>"
  by (simp add: make_final_decision_def Let_def)

section \<open>The sample inputs, evaluated\<close>

lemmas string_eval = strip_def isspace_def lower_def lower_char_def split_def

lemma sample_text: "extract_text_content sample_item = ''hello world''"
  by (simp add: sample_item_def extract_text_content_def priority_fields_def strip_def isspace_def)

lemma short_text: "extract_text_content short_item = ''ok''"
  by (simp add: short_item_def extract_text_content_def priority_fields_def strip_def isspace_def)

lemma risky_text:
  "extract_text_content risky_item
     = ''fake news, boato, farsa, fraude, mentira: sempre, nunca, todos''"
  by (simp add: risky_item_def extract_text_content_def priority_fields_def strip_def isspace_def)

lemma sample_sentiment:
  "analyze_sentiment ''hello world''
     = \<lparr> polarity = 0, classification = ''neutral'', confidence = Some 0.3 \<rparr>"
  by (simp add: analyze_sentiment_def positive_words_def negative_words_def Let_def string_eval)

lemma sample_bias:
  "overall_risk (detect_bias_disinformation (bias_detection load_verifier_config) ''hello world'')
     = Some 0"
  by (simp add: detect_bias_disinformation_def load_verifier_config_def Let_def string_eval)

lemma risky_bias:
  "overall_risk (detect_bias_disinformation (bias_detection strict_config)
      ''fake news, boato, farsa, fraude, mentira: sempre, nunca, todos'') = Some 0.72"
  by (simp add: detect_bias_disinformation_def strict_config_def load_verifier_config_def
      Let_def string_eval)

lemma extract_text_content_priority:
  "extract_text_content [''title'' \<mapsto> '' T '', ''content'' \<mapsto> ''C'', ''summary'' \<mapsto> ''  '',
      ''source'' \<mapsto> ''S''] = ''C T''"
  by (simp add: extract_text_content_def priority_fields_def strip_def isspace_def)

lemma context_confidence: "contextual_confidence (analyze_context i m) = Some 0.66"
  by (simp add: analyze_context_def Let_def)

lemma count_where_insert:
  "count_where p (xs @ x # ys) = count_where p (xs @ ys) + (if p x then 1 else 0)"
  by (simp add: count_where_def)

lemma reasons_distinct:
  "reason_high_risk \<noteq> reason_ambiguity" "reason_default_approved \<noteq> reason_ambiguity"
  "reason_high_risk \<noteq> reason_combined_approved"
  "reason_default_approved \<noteq> reason_combined_approved"
  "reason_high_risk \<noteq> reason_combined_rejected"
  "reason_default_approved \<noteq> reason_combined_rejected"
  by (simp_all add: reason_high_risk_def reason_ambiguity_def reason_default_approved_def
      reason_combined_approved_def reason_combined_rejected_def)

section \<open>Insufficient content\<close>

text \<open>
  Claim C6. When the normalized text of an item (the non-empty values of the fields
  content, text, description, title, summary, each trimmed, joined by spaces and trimmed)
  has fewer than 5 characters, the result is the rejection with the reason for
  insufficient content and final confidence 0. No analyzer is consulted: the result holds
  no analysis and is the same for every engine and batch context, also for an engine whose
  analyzers raise. In the compiled batch statistics the item adds one to the rejected
  count and nothing to the error count.
\<close>

theorem insufficient_content_rejected:
  assumes "length (extract_text_content item) < 5"
  shows "status (review (fst (verify_content_item self item massive))) = ''rejected''
       \<and> reason (review (fst (verify_content_item self item massive))) = reason_insufficient
       \<and> final_confidence (review (fst (verify_content_item self item massive))) = 0
       \<and> analysis (fst (verify_content_item self item massive)) = None
       \<and> fst (verify_content_item self item massive) = fst (verify_content_item self' item massive')
       \<and> items_rejected (batch_statistics (compile_verification_result
            (rs @ [fst (verify_content_item self item massive)] @ rs')))
          = items_rejected (batch_statistics (compile_verification_result (rs @ rs'))) + 1
       \<and> items_with_errors (batch_statistics (compile_verification_result
            (rs @ [fst (verify_content_item self item massive)] @ rs')))
          = items_with_errors (batch_statistics (compile_verification_result (rs @ rs')))"
proof -
  have r: "fst (verify_content_item self item massive) = create_insufficient_content_result item"
    by (simp add: verify_content_item_insufficient [OF assms])
  have r': "fst (verify_content_item self' item massive') = create_insufficient_content_result item"
    by (simp add: verify_content_item_insufficient [OF assms])
  have st: "status (review (create_insufficient_content_result item)) = ''rejected''"
    by (simp add: create_insufficient_content_result_def)
  have fields: "reason (review (create_insufficient_content_result item)) = reason_insufficient"
    "final_confidence (review (create_insufficient_content_result item)) = 0"
    "analysis (create_insufficient_content_result item) = None"
    by (simp_all add: create_insufficient_content_result_def)
  have counts:
    "items_rejected (batch_statistics (compile_verification_result
        (rs @ [create_insufficient_content_result item] @ rs')))
      = items_rejected (batch_statistics (compile_verification_result (rs @ rs'))) + 1"
    "items_with_errors (batch_statistics (compile_verification_result
        (rs @ [create_insufficient_content_result item] @ rs')))
      = items_with_errors (batch_statistics (compile_verification_result (rs @ rs')))"
    by (simp_all add: compile_verification_result_def Let_def count_where_insert st)
  show ?thesis
    unfolding r r' using st fields counts by simp
qed

theorem insufficient_content_rejected_witness:
  "length (extract_text_content short_item) < 5
   \<and> status (review (fst (verify_content_item EnhancedSynthesisEngine short_item None))) = ''rejected''
   \<and> reason (review (fst (verify_content_item EnhancedSynthesisEngine short_item None)))
       = reason_insufficient
   \<and> final_confidence (review (fst (verify_content_item EnhancedSynthesisEngine short_item None))) = 0
   \<and> fst (verify_content_item EnhancedSynthesisEngine short_item None)
       = fst (verify_content_item failing_sentiment_engine short_item None)"
proof -
  have h: "length (extract_text_content short_item) < 5" by (simp add: short_text)
  show ?thesis
    using h insufficient_content_rejected [OF h, of EnhancedSynthesisEngine None
        failing_sentiment_engine None "[]" "[]"]
    by blast
qed

section \<open>Decisions on items with sufficient text\<close>

lemma basic_engine_fields:
  "sentiment_analyzer (initialize_verifier_components cfg) t = Inr (analyze_sentiment t)"
  "bias_detector (initialize_verifier_components cfg) t
     = Inr (detect_bias_disinformation (bias_detection cfg) t)"
  "contextual_analyzer (initialize_verifier_components cfg) i m = Inr (analyze_context i m)"
  "config (initialize_verifier_components cfg) = cfg"
  by (simp_all add: initialize_verifier_components_def)

text \<open>
  Claim C3. An item whose normalized text has at least 5 characters and whose bias
  analysis reports an overall risk of at least 0.7 is rejected with the reason for high
  risk of bias or disinformation, whatever the sentiment and contextual results are (they
  are arbitrary here), and so whatever the composite confidence is.
\<close>

theorem high_risk_rejected:
  assumes "5 \<le> length (extract_text_content item)"
    and "sentiment_analyzer self (extract_text_content item) = Inr s"
    and "bias_detector self (extract_text_content item) = Inr b"
    and "contextual_analyzer self item massive = Inr c"
    and "overall_risk b = Some r" and "r \<ge> 0.7"
  shows "status (review (fst (verify_content_item self item massive))) = ''rejected''
       \<and> reason (review (fst (verify_content_item self item massive))) = reason_high_risk"
  using assms(5,6)
  by (simp add: verify_content_item_sufficient [OF assms(1-4) refl] make_final_decision_rule
      apply_rules_status apply_rules_reason get_or_def)

theorem high_risk_rejected_witness:
  "5 \<le> length (extract_text_content risky_item)
   \<and> overall_risk (detect_bias_disinformation (bias_detection strict_config)
         (extract_text_content risky_item)) = Some 0.72
   \<and> status (review (fst (verify_content_item (initialize_verifier_components strict_config)
         risky_item None))) = ''rejected''
   \<and> reason (review (fst (verify_content_item (initialize_verifier_components strict_config)
         risky_item None))) = reason_high_risk"
proof -
  have len: "5 \<le> length (extract_text_content risky_item)" by (simp add: risky_text)
  have risk: "overall_risk (detect_bias_disinformation (bias_detection strict_config)
         (extract_text_content risky_item)) = Some 0.72"
    by (simp only: risky_text risky_bias)
  have "(0.72::real) \<ge> 0.7" by simp
  from high_risk_rejected [OF len basic_engine_fields(1) [of strict_config]
      basic_engine_fields(2) [of strict_config] basic_engine_fields(3) [of strict_config _ None]
      risk this]
  show ?thesis using len risk by blast
qed

text \<open>
  Claim C4. When the text has at least 5 characters and no analyzer raises, the final
  status is rejected exactly when the overall risk is at least 0.7 and approved otherwise.
  The rule engine always answers approved or rejected, the final decision takes that
  answer for every threshold table and rule list, and the reason is never one of the three
  reasons of the threshold branch: the composite confidence has no influence on the status.
\<close>

theorem status_decided_by_risk_alone:
  assumes "5 \<le> length (extract_text_content item)"
    and "sentiment_analyzer self (extract_text_content item) = Inr s"
    and "bias_detector self (extract_text_content item) = Inr b"
    and "contextual_analyzer self item massive = Inr c"
  shows "status (review (fst (verify_content_item self item massive)))
           = (if get_or 0 (overall_risk b) \<ge> 0.7 then ''rejected'' else ''approved'')
       \<and> reason (review (fst (verify_content_item self item massive)))
           \<notin> {reason_combined_approved, reason_combined_rejected, reason_ambiguity}
       \<and> rule_status (apply_rules rs a) \<in> {''approved'', ''rejected''}
       \<and> status (make_final_decision ths a (apply_rules rs a)) = rule_status (apply_rules rs a)"
  by (simp add: verify_content_item_sufficient [OF assms(1-4) refl] make_final_decision_rule
      apply_rules_status apply_rules_reason reasons_distinct)

theorem status_decided_by_risk_alone_witness:
  "5 \<le> length (extract_text_content sample_item)
   \<and> status (review (fst (verify_content_item EnhancedSynthesisEngine sample_item None)))
       = ''approved''
   \<and> 5 \<le> length (extract_text_content risky_item)
   \<and> status (review (fst (verify_content_item (initialize_verifier_components strict_config)
         risky_item None))) = ''rejected''"
proof -
  have len1: "5 \<le> length (extract_text_content sample_item)" by (simp add: sample_text)
  have len2: "5 \<le> length (extract_text_content risky_item)" by (simp add: risky_text)
  have r1: "overall_risk (detect_bias_disinformation (bias_detection load_verifier_config)
         (extract_text_content sample_item)) = Some 0"
    by (simp only: sample_text sample_bias)
  have r2: "overall_risk (detect_bias_disinformation (bias_detection strict_config)
         (extract_text_content risky_item)) = Some 0.72"
    by (simp only: risky_text risky_bias)
  have "status (review (fst (verify_content_item EnhancedSynthesisEngine sample_item None)))
       = ''approved''"
    using status_decided_by_risk_alone [OF len1 basic_engine_fields(1) [of load_verifier_config]
      basic_engine_fields(2) [of load_verifier_config]
      basic_engine_fields(3) [of load_verifier_config _ None]]
    by (simp add: r1 get_or_def EnhancedSynthesisEngine_def)
  moreover have "status (review (fst (verify_content_item
         (initialize_verifier_components strict_config) risky_item None))) = ''rejected''"
    using status_decided_by_risk_alone [OF len2 basic_engine_fields(1) [of strict_config]
      basic_engine_fields(2) [of strict_config] basic_engine_fields(3) [of strict_config _ None]]
    by (simp add: r2 get_or_def)
  ultimately show ?thesis using len1 len2 by blast
qed

text \<open>
  Claim C5. For an item that reaches the aggregation, the final confidence is the
  sentiment confidence times 0.2 plus one minus the overall risk times 0.3 plus the
  contextual confidence times 0.5 (a signal value missing from its dictionary counts as
  0.5), the recorded breakdown holds these three terms, and they add up to the final
  confidence. Over the reals the sum is exact.
\<close>

theorem final_confidence_weighted_sum:
  assumes "5 \<le> length (extract_text_content item)"
    and "sentiment_analyzer self (extract_text_content item) = Inr s"
    and "bias_detector self (extract_text_content item) = Inr b"
    and "contextual_analyzer self item massive = Inr c"
  shows "final_confidence (review (fst (verify_content_item self item massive)))
           = get_or 0.5 (confidence s) * 0.2 + (1 - get_or 0.5 (overall_risk b)) * 0.3
             + get_or 0.5 (contextual_confidence c) * 0.5
       \<and> (case breakdown (review (fst (verify_content_item self item massive))) of
             None \<Rightarrow> False
           | Some bd \<Rightarrow>
               sentiment_contribution bd = get_or 0.5 (confidence s) * 0.2
             \<and> bias_contribution bd = (1 - get_or 0.5 (overall_risk b)) * 0.3
             \<and> contextual_contribution bd = get_or 0.5 (contextual_confidence c) * 0.5
             \<and> sentiment_contribution bd + bias_contribution bd + contextual_contribution bd
                 = final_confidence (review (fst (verify_content_item self item massive))))"
  by (simp add: verify_content_item_sufficient [OF assms(1-4) refl] make_final_decision_confidence
      make_final_decision_breakdown)


theorem final_confidence_weighted_sum_witness:
  "5 \<le> length (extract_text_content sample_item)
   \<and> final_confidence (review (fst (verify_content_item EnhancedSynthesisEngine sample_item None)))
       = 0.3 * 0.2 + (1 - 0) * 0.3 + 0.66 * 0.5
   \<and> final_confidence (review (fst (verify_content_item EnhancedSynthesisEngine sample_item None)))
       = 0.69"
proof -
  have len1: "5 \<le> length (extract_text_content sample_item)" by (simp add: sample_text)
  have r1: "overall_risk (detect_bias_disinformation (bias_detection load_verifier_config)
         (extract_text_content sample_item)) = Some 0"
    by (simp only: sample_text sample_bias)
  have s1: "confidence (analyze_sentiment (extract_text_content sample_item)) = Some 0.3"
    by (simp add: sample_text sample_sentiment)
  show ?thesis
    using final_confidence_weighted_sum [OF len1 basic_engine_fields(1) [of load_verifier_config]
      basic_engine_fields(2) [of load_verifier_config]
      basic_engine_fields(3) [of load_verifier_config _ None]] len1
    by (simp add: r1 s1 context_confidence get_or_def EnhancedSynthesisEngine_def)
qed

section \<open>The contextual signal\<close>

lemma analyze_context_value:
  "analyze_context i m
     = \<lparr> contextual_confidence = Some 0.66, consistency_score = 0.7,
         source_reliability_score = 0.6, temporal_coherence_score = 0.7, context_flags = [] \<rparr>"
  by (simp add: analyze_context_def Let_def)

text \<open>
  Claim C10. The basic contextual analyzer returns the same dictionary for every item and
  every batch context: consistency 0.7, source reliability 0.6, temporal coherence 0.7,
  contextual confidence 0.66 and no flags. The whole verification of an item with the
  basic components is therefore the same for every batch context, and for every item that
  reaches the aggregation the contextual term of the breakdown is 0.33.
\<close>

theorem contextual_analysis_constant:
  "analyze_context item massive
     = \<lparr> contextual_confidence = Some 0.66, consistency_score = 0.7,
         source_reliability_score = 0.6, temporal_coherence_score = 0.7, context_flags = [] \<rparr>
   \<and> analyze_context item massive = analyze_context item' massive'
   \<and> verify_content_item (initialize_verifier_components cfg) item massive
       = verify_content_item (initialize_verifier_components cfg) item massive'
   \<and> (5 \<le> length (extract_text_content item) \<longrightarrow>
        map_option contextual_contribution
          (breakdown (review (fst (verify_content_item (initialize_verifier_components cfg)
             item massive)))) = Some 0.33)"
proof (intro conjI impI)
  show "analyze_context item massive
     = \<lparr> contextual_confidence = Some 0.66, consistency_score = 0.7,
         source_reliability_score = 0.6, temporal_coherence_score = 0.7, context_flags = [] \<rparr>"
    by (rule analyze_context_value)
  show "analyze_context item massive = analyze_context item' massive'"
    by (simp only: analyze_context_value)
  show "verify_content_item (initialize_verifier_components cfg) item massive
       = verify_content_item (initialize_verifier_components cfg) item massive'"
    unfolding verify_content_item_def basic_engine_fields analyze_context_value ..
  show "map_option contextual_contribution
          (breakdown (review (fst (verify_content_item (initialize_verifier_components cfg)
             item massive)))) = Some 0.33"
    if len: "5 \<le> length (extract_text_content item)"
    by (simp add: verify_content_item_sufficient [OF len basic_engine_fields(1)
          basic_engine_fields(2) basic_engine_fields(3) refl]
        make_final_decision_breakdown context_confidence get_or_def)
qed

theorem contextual_analysis_constant_witness:
  "5 \<le> length (extract_text_content sample_item)
   \<and> map_option contextual_contribution
        (breakdown (review (fst (verify_content_item EnhancedSynthesisEngine sample_item None))))
       = Some 0.33
   \<and> verify_content_item EnhancedSynthesisEngine sample_item None
       = verify_content_item EnhancedSynthesisEngine sample_item (Some [''web_001'' \<mapsto> ''0.9''])"
proof -
  have len1: "5 \<le> length (extract_text_content sample_item)" by (simp add: sample_text)
  note t = contextual_analysis_constant [where item = sample_item and massive = None
        and item' = sample_item and massive' = "Some [''web_001'' \<mapsto> ''0.9'']"
        and cfg = load_verifier_config]
  note i = t [THEN conjunct2, THEN conjunct2, THEN conjunct1]
  note k = t [THEN conjunct2, THEN conjunct2, THEN conjunct2, THEN mp, OF len1]
  show ?thesis
    unfolding EnhancedSynthesisEngine_def using len1 i k by (intro conjI)
qed

section \<open>Failing analyzers and the range of the final confidence\<close>

lemma get_or_unit:
  assumes "\<And>v. x = Some v \<Longrightarrow> 0 \<le> v \<and> v \<le> (1::real)" and "0 \<le> d" and "d \<le> 1"
  shows "0 \<le> get_or d x \<and> get_or d x \<le> 1"
  using assms by (cases x) (simp_all add: get_or_def)

lemma weighted_sum_unit:
  fixes x y z :: real
  assumes "0 \<le> x \<and> x \<le> 1" and "0 \<le> y \<and> y \<le> 1" and "0 \<le> z \<and> z \<le> 1"
  shows "0 \<le> x * 0.2 + (1 - y) * 0.3 + z * 0.5 \<and> x * 0.2 + (1 - y) * 0.3 + z * 0.5 \<le> 1"
proof
  show "0 \<le> x * 0.2 + (1 - y) * 0.3 + z * 0.5" using assms by simp
  have "x * 0.2 \<le> 0.2" "(1 - y) * 0.3 \<le> 0.3" "z * 0.5 \<le> 0.5" using assms by simp_all
  then show "x * 0.2 + (1 - y) * 0.3 + z * 0.5 \<le> 1" by linarith
qed

lemma min_unit: "0 \<le> min (\<bar>p::real\<bar> * 5 + 0.3) 1 \<and> min (\<bar>p\<bar> * 5 + 0.3) 1 \<le> 1"
  by (simp add: min_def)

lemma analyze_sentiment_confidence:
  "confidence (analyze_sentiment t) = Some 0.5
   \<or> confidence (analyze_sentiment t) = Some (min (\<bar>polarity (analyze_sentiment t)\<bar> * 5 + 0.3) 1)"
  by (simp add: analyze_sentiment_def Let_def)

lemma analyze_sentiment_unit:
  assumes "confidence (analyze_sentiment t) = Some v"
  shows "0 \<le> v \<and> v \<le> 1"
  using analyze_sentiment_confidence [of t] assms min_unit [of "polarity (analyze_sentiment t)"]
  by (elim disjE) simp_all


lemma min_count_unit:
  fixes k :: real
  assumes "0 \<le> k"
  shows "0 \<le> min (real n * k) 1 \<and> min (real n * k) 1 \<le> 1"
  using assms by (simp add: min_def)

lemma risk_unit:
  fixes b d :: real
  assumes "0 \<le> b \<and> b \<le> 1" and "0 \<le> d \<and> d \<le> 1"
  shows "0 \<le> b * 0.4 + d * 0.6 \<and> b * 0.4 + d * 0.6 \<le> 1"
proof
  show "0 \<le> b * 0.4 + d * 0.6" using assms by simp
  have "b * 0.4 \<le> 0.4" "d * 0.6 \<le> 0.6" using assms by simp_all
  then show "b * 0.4 + d * 0.6 \<le> 1" by linarith
qed

lemma detect_bias_risk:
  "overall_risk (detect_bias_disinformation bc t) = Some 0
   \<or> overall_risk (detect_bias_disinformation bc t)
       = Some (min (real (length (filter (contains (lower t)) (bias_keywords bc))) * 0.1) 1 * 0.4
         + min (real (length (filter (contains (lower t)) (disinformation_patterns bc))) * 0.2) 1
           * 0.6)"
  by (simp add: detect_bias_disinformation_def Let_def)

lemma detect_bias_unit:
  assumes "overall_risk (detect_bias_disinformation bc t) = Some v"
  shows "0 \<le> v \<and> v \<le> 1"
proof -
  from detect_bias_risk [of bc t] assms
  consider "v = 0"
    | "v = min (real (length (filter (contains (lower t)) (bias_keywords bc))) * 0.1) 1 * 0.4
         + min (real (length (filter (contains (lower t)) (disinformation_patterns bc))) * 0.2) 1
           * 0.6"
    by (elim disjE) simp_all
  then show ?thesis
  proof cases
    case 1
    then show ?thesis by simp
  next
    case 2
    have "(0::real) \<le> 0.1" "(0::real) \<le> 0.2" by simp_all
    from risk_unit [OF min_count_unit [OF this(1)] min_count_unit [OF this(2)]] 2
    show ?thesis by simp
  qed
qed


lemma count_le_length: "real (length (filter p xs)) \<le> real (length xs)"
  by simp

lemma default_risk_at_most:
  assumes "overall_risk (detect_bias_disinformation (bias_detection load_verifier_config) t)
             = Some v"
  shows "v \<le> 0.6"
proof -
  let ?bc = "bias_detection load_verifier_config"
  let ?n = "real (length (filter (contains (lower t)) (bias_keywords ?bc)))"
  let ?m = "real (length (filter (contains (lower t)) (disinformation_patterns ?bc)))"
  have n: "?n \<le> 6"
    using count_le_length [of "contains (lower t)" "bias_keywords ?bc"]
    by (simp add: load_verifier_config_def)
  have m: "?m \<le> 3"
    using count_le_length [of "contains (lower t)" "disinformation_patterns ?bc"]
    by (simp add: load_verifier_config_def)
  have b: "min (?n * 0.1) 1 * 0.4 \<le> 24 / 100" using n by (simp add: min_def)
  have d: "min (?m * 0.2) 1 * 0.6 \<le> 36 / 100" using m by (simp add: min_def)
  from detect_bias_risk [of ?bc t] assms
  consider "v = 0" | "v = min (?n * 0.1) 1 * 0.4 + min (?m * 0.2) 1 * 0.6"
    by (elim disjE) simp_all
  then show ?thesis
  proof cases
    case 1
    then show ?thesis by simp
  next
    case 2
    with b d have "v \<le> 60 / 100" by linarith
    then show ?thesis by simp
  qed
qed

lemma verify_content_item_failure:
  assumes len: "5 \<le> length (extract_text_content item)"
    and fails: "sentiment_analyzer self (extract_text_content item) = Inl e
       \<or> (\<not> isl (sentiment_analyzer self (extract_text_content item))
            \<and> bias_detector self (extract_text_content item) = Inl e)
       \<or> (\<not> isl (sentiment_analyzer self (extract_text_content item))
            \<and> \<not> isl (bias_detector self (extract_text_content item))
            \<and> contextual_analyzer self item massive = Inl e)"
  shows "verify_content_item self item massive = (create_error_result item e, self)"
proof -
  have long: "\<not> length (strip (extract_text_content item)) < 5"
    using len by (simp add: strip_extract_text_content)
  have nonempty: "extract_text_content item \<noteq> []" using len by auto
  from fails show ?thesis
  proof (elim disjE conjE)
    assume "sentiment_analyzer self (extract_text_content item) = Inl e"
    then show ?thesis by (simp add: verify_content_item_def Let_def long nonempty)
  next
    assume "\<not> isl (sentiment_analyzer self (extract_text_content item))"
      and b: "bias_detector self (extract_text_content item) = Inl e"
    then obtain s where "sentiment_analyzer self (extract_text_content item) = Inr s"
      by (cases "sentiment_analyzer self (extract_text_content item)") simp_all
    then show ?thesis by (simp add: verify_content_item_def Let_def long nonempty b)
  next
    assume "\<not> isl (sentiment_analyzer self (extract_text_content item))"
      and "\<not> isl (bias_detector self (extract_text_content item))"
      and c: "contextual_analyzer self item massive = Inl e"
    then obtain s b where "sentiment_analyzer self (extract_text_content item) = Inr s"
      and "bias_detector self (extract_text_content item) = Inr b"
      by (cases "sentiment_analyzer self (extract_text_content item)";
          cases "bias_detector self (extract_text_content item)") simp_all
    then show ?thesis by (simp add: verify_content_item_def Let_def long nonempty c)
  qed
qed

lemma verify_content_item_cases:
  obtains (insufficient) "fst (verify_content_item self item massive)
                            = create_insufficient_content_result item"
  | (failure) e where "fst (verify_content_item self item massive) = create_error_result item e"
  | (decided) s b c a where "sentiment_analyzer self (extract_text_content item) = Inr s"
      and "bias_detector self (extract_text_content item) = Inr b"
      and "contextual_analyzer self item massive = Inr c"
      and "sentiment_analysis a = s" and "bias_disinformation_analysis a = b"
      and "contextual_analysis a = c"
      and "fst (verify_content_item self item massive)
             = \<lparr> result_item_id = item_id a, analysis = Some a,
                 review = make_final_decision (thresholds (config self)) a
                            (apply_rules (rules (config self)) a) \<rparr>"
proof (cases "length (extract_text_content item) < 5")
  case True
  then show ?thesis
    using insufficient by (simp add: verify_content_item_insufficient)
next
  case False
  then have len: "5 \<le> length (extract_text_content item)" by simp
  show ?thesis
  proof (cases "sentiment_analyzer self (extract_text_content item)")
    case (Inl e)
    then show ?thesis
      using failure [of e] verify_content_item_failure [OF len, of self e massive] by simp
  next
    case s: (Inr s)
    show ?thesis
    proof (cases "bias_detector self (extract_text_content item)")
      case (Inl e)
      then show ?thesis
        using failure [of e] verify_content_item_failure [OF len, of self e massive] s by simp
    next
      case b: (Inr b)
      show ?thesis
      proof (cases "contextual_analyzer self item massive")
        case (Inl e)
        then show ?thesis
          using failure [of e] verify_content_item_failure [OF len, of self e massive] s b
          by simp
      next
        case c: (Inr c)
        show ?thesis
          using decided [OF s b c _ _ _ verify_content_item_sufficient [OF len s b c refl]]
          by simp
      qed
    qed
  qed
qed

lemma failing_engine_fields:
  "sentiment_analyzer failing_sentiment_engine t = Inl ''boom''"
  "sentiment_analyzer neutral_sentiment_engine t
     = Inr \<lparr> polarity = 0, classification = ''neutral'', confidence = Some 0.5 \<rparr>"
  "bias_detector neutral_sentiment_engine t
     = Inr (detect_bias_disinformation (bias_detection load_verifier_config) t)"
  "contextual_analyzer neutral_sentiment_engine i m = Inr (analyze_context i m)"
  by (simp_all add: failing_sentiment_engine_def neutral_sentiment_engine_def
      EnhancedSynthesisEngine_def initialize_verifier_components_def)

text \<open>
  Claim C8. For every item the reported final confidence lies between 0 and 1, on each
  path: insufficient content and a raising analyzer give 0, and a decided item gives the
  weighted sum of three values of the unit interval. The analyzers of the engine are
  arbitrary here, as long as the signal values they return lie in the unit interval; the
  basic analyzers do (\<open>analyze_sentiment_unit\<close>, \<open>detect_bias_unit\<close>,
  \<open>context_confidence\<close>).
\<close>

theorem final_confidence_in_unit_interval:
  assumes sa: "\<And>t s v. sentiment_analyzer self t = Inr s \<Longrightarrow> confidence s = Some v
                 \<Longrightarrow> 0 \<le> v \<and> v \<le> 1"
    and bd: "\<And>t b v. bias_detector self t = Inr b \<Longrightarrow> overall_risk b = Some v
                 \<Longrightarrow> 0 \<le> v \<and> v \<le> 1"
    and ca: "\<And>i m c v. contextual_analyzer self i m = Inr c \<Longrightarrow> contextual_confidence c = Some v
                 \<Longrightarrow> 0 \<le> v \<and> v \<le> 1"
  shows "0 \<le> final_confidence (review (fst (verify_content_item self item massive)))
       \<and> final_confidence (review (fst (verify_content_item self item massive))) \<le> 1"
proof (cases rule: verify_content_item_cases [of self item massive])
  case insufficient
  then show ?thesis by (simp add: create_insufficient_content_result_def)
next
  case (failure e)
  then show ?thesis by (simp add: create_error_result_def)
next
  case (decided s b c a)
  have x: "0 \<le> get_or 0.5 (confidence s) \<and> get_or 0.5 (confidence s) \<le> 1"
    by (rule get_or_unit) (use sa [OF decided(1)] in simp_all)
  have y: "0 \<le> get_or 0.5 (overall_risk b) \<and> get_or 0.5 (overall_risk b) \<le> 1"
    by (rule get_or_unit) (use bd [OF decided(2)] in simp_all)
  have z: "0 \<le> get_or 0.5 (contextual_confidence c) \<and> get_or 0.5 (contextual_confidence c) \<le> 1"
    by (rule get_or_unit) (use ca [OF decided(3)] in simp_all)
  have "final_confidence (review (fst (verify_content_item self item massive)))
      = get_or 0.5 (confidence s) * 0.2 + (1 - get_or 0.5 (overall_risk b)) * 0.3
        + get_or 0.5 (contextual_confidence c) * 0.5"
    by (simp add: decided(4-7) make_final_decision_confidence)
  then show ?thesis using weighted_sum_unit [OF x y z] by simp
qed

theorem final_confidence_in_unit_interval_witness:
  "0 \<le> final_confidence (review (fst (verify_content_item EnhancedSynthesisEngine sample_item None)))
   \<and> final_confidence (review (fst (verify_content_item EnhancedSynthesisEngine sample_item None)))
       \<le> 1
   \<and> 0 \<le> final_confidence (review (fst (verify_content_item failing_sentiment_engine
                sample_item None)))
   \<and> final_confidence (review (fst (verify_content_item failing_sentiment_engine
                sample_item None))) \<le> 1"
proof -
  have basic: "0 \<le> final_confidence (review (fst (verify_content_item EnhancedSynthesisEngine
                   sample_item None)))
      \<and> final_confidence (review (fst (verify_content_item EnhancedSynthesisEngine
                   sample_item None))) \<le> 1"
  proof (rule final_confidence_in_unit_interval)
    fix t s v
    assume "sentiment_analyzer EnhancedSynthesisEngine t = Inr s" and "confidence s = Some v"
    then show "0 \<le> v \<and> v \<le> 1"
      using analyze_sentiment_unit [of t v]
      by (simp add: EnhancedSynthesisEngine_def basic_engine_fields)
  next
    fix t b v
    assume "bias_detector EnhancedSynthesisEngine t = Inr b" and "overall_risk b = Some v"
    then show "0 \<le> v \<and> v \<le> 1"
      using detect_bias_unit [of "bias_detection load_verifier_config" t v]
      by (simp add: EnhancedSynthesisEngine_def basic_engine_fields)
  next
    fix i m c v
    assume "contextual_analyzer EnhancedSynthesisEngine i m = Inr c"
      and "contextual_confidence c = Some v"
    then show "0 \<le> v \<and> v \<le> 1"
      using context_confidence [of i m]
      by (simp add: EnhancedSynthesisEngine_def basic_engine_fields)
  qed
  have failing: "0 \<le> final_confidence (review (fst (verify_content_item failing_sentiment_engine
                   sample_item None)))
      \<and> final_confidence (review (fst (verify_content_item failing_sentiment_engine
                   sample_item None))) \<le> 1"
  proof (rule final_confidence_in_unit_interval)
    fix t s v
    assume "sentiment_analyzer failing_sentiment_engine t = Inr s"
    then show "0 \<le> v \<and> v \<le> 1" by (simp add: failing_engine_fields)
  next
    fix t b v
    assume "bias_detector failing_sentiment_engine t = Inr b" and "overall_risk b = Some v"
    then show "0 \<le> v \<and> v \<le> 1"
      using detect_bias_unit [of "bias_detection load_verifier_config" t v]
      by (simp add: failing_sentiment_engine_def EnhancedSynthesisEngine_def
          initialize_verifier_components_def)
  next
    fix i m c v
    assume "contextual_analyzer failing_sentiment_engine i m = Inr c"
      and "contextual_confidence c = Some v"
    then show "0 \<le> v \<and> v \<le> 1"
      using context_confidence [of i m]
      by (simp add: failing_sentiment_engine_def EnhancedSynthesisEngine_def
          initialize_verifier_components_def)
  qed
  from basic failing show ?thesis by (intro conjI) (elim conjE, assumption)+
qed

text \<open>
  Claim C7 says that a failing extractor is replaced by a neutral signal value and the item
  is then decided as usual. The code does not do that: with a sentiment analyzer that
  raises, the sample item ends with final confidence 0, status rejected and no recorded
  analysis, while the same item with the neutral sentiment value in place of the failure
  would get final confidence 0.5 * 0.2 + 1 * 0.3 + 0.66 * 0.5 and be approved.
\<close>

theorem extractor_failure_counterexample:
  "final_confidence (review (fst (verify_content_item failing_sentiment_engine sample_item None)))
     \<noteq> 0.5 * 0.2 + (1 - 0) * 0.3 + 0.66 * 0.5
   \<and> final_confidence (review (fst (verify_content_item neutral_sentiment_engine sample_item None)))
     = 0.5 * 0.2 + (1 - 0) * 0.3 + 0.66 * 0.5
   \<and> status (review (fst (verify_content_item neutral_sentiment_engine sample_item None)))
     = ''approved''
   \<and> status (review (fst (verify_content_item failing_sentiment_engine sample_item None)))
     = ''rejected''
   \<and> analysis (fst (verify_content_item failing_sentiment_engine sample_item None)) = None"
proof -
  have len: "5 \<le> length (extract_text_content sample_item)" by (simp add: sample_text)
  have f: "verify_content_item failing_sentiment_engine sample_item None
      = (create_error_result sample_item ''boom'', failing_sentiment_engine)"
    by (rule verify_content_item_failure [OF len]) (simp add: failing_engine_fields)
  have r1: "overall_risk (detect_bias_disinformation (bias_detection load_verifier_config)
         (extract_text_content sample_item)) = Some 0"
    by (simp only: sample_text sample_bias)
  have n: "final_confidence (review (fst (verify_content_item neutral_sentiment_engine
         sample_item None))) = 0.5 * 0.2 + (1 - 0) * 0.3 + 0.66 * 0.5"
    "status (review (fst (verify_content_item neutral_sentiment_engine sample_item None)))
       = ''approved''"
    by (simp_all add: verify_content_item_sufficient [OF len failing_engine_fields(2)
          failing_engine_fields(3) failing_engine_fields(4) refl]
        make_final_decision_confidence make_final_decision_rule apply_rules_status
        r1 context_confidence get_or_def)
  show ?thesis
    using n by (simp add: f create_error_result_def)
qed

text \<open>
  Claim C7, amended. When the text has at least 5 characters and an analyzer raises (the
  sentiment analyzer, or the bias detector after it, or the contextual analyzer after
  both), the evaluation of the item stops there and the item receives the error decision:
  status rejected, reason \<^verbatim>\<open>Erro: \<close> followed by the text of the exception, final
  confidence 0, the error flag set and no analysis recorded. The call returns normally
  with the engine unchanged, so a loop over a batch goes on.
\<close>

theorem extractor_failure_error_result:
  assumes "5 \<le> length (extract_text_content item)"
    and "sentiment_analyzer self (extract_text_content item) = Inl e
       \<or> (\<not> isl (sentiment_analyzer self (extract_text_content item))
            \<and> bias_detector self (extract_text_content item) = Inl e)
       \<or> (\<not> isl (sentiment_analyzer self (extract_text_content item))
            \<and> \<not> isl (bias_detector self (extract_text_content item))
            \<and> contextual_analyzer self item massive = Inl e)"
  shows "status (review (fst (verify_content_item self item massive))) = ''rejected''
       \<and> reason (review (fst (verify_content_item self item massive))) = ''Erro: '' @ e
       \<and> final_confidence (review (fst (verify_content_item self item massive))) = 0
       \<and> error (review (fst (verify_content_item self item massive)))
       \<and> analysis (fst (verify_content_item self item massive)) = None
       \<and> snd (verify_content_item self item massive) = self"
  by (simp add: verify_content_item_failure [OF assms] create_error_result_def)

theorem extractor_failure_error_result_witness:
  "5 \<le> length (extract_text_content sample_item)
   \<and> sentiment_analyzer failing_sentiment_engine (extract_text_content sample_item) = Inl ''boom''
   \<and> status (review (fst (verify_content_item failing_sentiment_engine sample_item None)))
       = ''rejected''
   \<and> reason (review (fst (verify_content_item failing_sentiment_engine sample_item None)))
       = ''Erro: boom''
   \<and> final_confidence (review (fst (verify_content_item failing_sentiment_engine sample_item None)))
       = 0
   \<and> error (review (fst (verify_content_item failing_sentiment_engine sample_item None)))"
proof -
  have len: "5 \<le> length (extract_text_content sample_item)" by (simp add: sample_text)
  have f: "sentiment_analyzer failing_sentiment_engine (extract_text_content sample_item)
      = Inl ''boom''"
    by (simp add: failing_engine_fields)
  from extractor_failure_error_result [OF len disjI1, OF f, of None] len f
  show ?thesis by simp
qed

text \<open>
  Claim C1 expects an item that no rule matches to be decided by the thresholds, and to
  be rejected for ambiguity when its composite confidence lies strictly between 0.35 and
  0.75. The code approves it: the sample item has overall risk 0 and composite confidence
  0.69 (below the 0.85 of the declared approval rule, neither at least 0.75 nor at most
  0.35), and its decision is approved with the default reason of the rule engine.
\<close>

theorem ambiguous_zone_approved:
  "5 \<le> length (extract_text_content sample_item)
   \<and> final_confidence (review (fst (verify_content_item EnhancedSynthesisEngine sample_item None)))
       = 0.69
   \<and> status (review (fst (verify_content_item EnhancedSynthesisEngine sample_item None)))
       = ''approved''
   \<and> reason (review (fst (verify_content_item EnhancedSynthesisEngine sample_item None)))
       = reason_default_approved
   \<and> result_risk (fst (verify_content_item EnhancedSynthesisEngine sample_item None)) = 0
   \<and> \<not> should_approve (thresholds (config EnhancedSynthesisEngine)) 0.69
   \<and> \<not> should_reject (thresholds (config EnhancedSynthesisEngine)) 0.69"
proof -
  have len: "5 \<le> length (extract_text_content sample_item)" by (simp add: sample_text)
  have r1: "overall_risk (detect_bias_disinformation (bias_detection load_verifier_config)
         (extract_text_content sample_item)) = Some 0"
    by (simp only: sample_text sample_bias)
  have s1: "confidence (analyze_sentiment (extract_text_content sample_item)) = Some 0.3"
    by (simp add: sample_text sample_sentiment)
  have d: "final_confidence (review (fst (verify_content_item EnhancedSynthesisEngine
         sample_item None))) = 0.69"
    "status (review (fst (verify_content_item EnhancedSynthesisEngine sample_item None)))
       = ''approved''"
    "reason (review (fst (verify_content_item EnhancedSynthesisEngine sample_item None)))
       = reason_default_approved"
    "result_risk (fst (verify_content_item EnhancedSynthesisEngine sample_item None)) = 0"
    unfolding EnhancedSynthesisEngine_def
    by (simp_all add: verify_content_item_sufficient [OF len basic_engine_fields(1)
          basic_engine_fields(2) basic_engine_fields(3) refl]
        make_final_decision_confidence make_final_decision_rule apply_rules_status
        apply_rules_reason result_risk_def r1 s1 context_confidence get_or_def)
  have t: "\<not> should_approve (thresholds (config EnhancedSynthesisEngine)) 0.69"
    "\<not> should_reject (thresholds (config EnhancedSynthesisEngine)) 0.69"
    by (simp_all add: should_approve_def should_reject_def EnhancedSynthesisEngine_def
        basic_engine_fields load_verifier_config_def get_or_def)
  show ?thesis using len d t by (intro conjI)
qed

section \<open>The rule engine and the declared rule list\<close>










section \<open>Main issues of a batch\<close>

lemma add_issues_append: "add_issues issues r = issues @ item_issues r"
  by (simp add: add_issues_def item_issues_def Let_def)

lemma foldl_add_issues:
  "foldl add_issues issues results = issues @ concat (map item_issues results)"
proof (induction results arbitrary: issues)
  case Nil
  show ?case by simp
next
  case (Cons r results)
  have "foldl add_issues issues (r # results) = foldl add_issues (add_issues issues r) results"
    by simp
  also have "\<dots> = add_issues issues r @ concat (map item_issues results)"
    by (rule Cons.IH)
  also have "\<dots> = issues @ concat (map item_issues (r # results))"
    by (simp add: add_issues_append)
  finally show ?case .
qed

lemma risky_result:
  "status (review (fst (verify_content_item (initialize_verifier_components strict_config)
      risky_item None))) = ''rejected''"
  "result_risk (fst (verify_content_item (initialize_verifier_components strict_config)
      risky_item None)) = 0.72"
proof -
  have len: "5 \<le> length (extract_text_content risky_item)" by (simp add: risky_text)
  have risk: "overall_risk (detect_bias_disinformation (bias_detection strict_config)
         (extract_text_content risky_item)) = Some 0.72"
    by (simp only: risky_text risky_bias)
  note v = verify_content_item_sufficient [OF len basic_engine_fields(1) [of strict_config]
      basic_engine_fields(2) [of strict_config] basic_engine_fields(3) [of strict_config _ None]
      refl]
  show "status (review (fst (verify_content_item (initialize_verifier_components strict_config)
      risky_item None))) = ''rejected''"
    by (simp add: v make_final_decision_rule apply_rules_status risk get_or_def)
  show "result_risk (fst (verify_content_item (initialize_verifier_components strict_config)
      risky_item None)) = 0.72"
    by (simp add: v result_risk_def risk get_or_def)
qed

lemma short_result:
  "status (review (fst (verify_content_item (initialize_verifier_components strict_config)
      short_item None))) = ''rejected''"
  "result_risk (fst (verify_content_item (initialize_verifier_components strict_config)
      short_item None)) = 0"
proof -
  have len: "length (extract_text_content short_item) < 5" by (simp add: short_text)
  show "status (review (fst (verify_content_item (initialize_verifier_components strict_config)
      short_item None))) = ''rejected''"
    by (simp add: verify_content_item_insufficient [OF len] create_insufficient_content_result_def)
  show "result_risk (fst (verify_content_item (initialize_verifier_components strict_config)
      short_item None)) = 0"
    by (simp add: verify_content_item_insufficient [OF len] create_insufficient_content_result_def
        result_risk_def)
qed

text \<open>
  Claim C9 says that the entries for rejections are ranked before the entries for high
  bias risk. The code keeps the order of the batch: for a batch of a rejected item with
  overall risk 0.72 followed by an item rejected for insufficient content, the entry for
  high bias risk of the first item stands before the rejection entry of the second.
\<close>

theorem main_issues_ranking_counterexample:
  "map issue_type (identify_main_issues
      [fst (verify_content_item (initialize_verifier_components strict_config) risky_item None),
       fst (verify_content_item (initialize_verifier_components strict_config) short_item None)])
     = [''rejection'', ''high_bias_risk'', ''rejection'']"
  by (simp add: identify_main_issues_def add_issues_def Let_def risky_result short_result)
     (simp add: rejection_issue_def high_bias_issue_def)

text \<open>
  Claim C9, amended. The list of main issues is the first 10 entries of the sequence
  obtained by going through the results in batch order, where each result contributes a
  rejection entry when its status is rejected, followed by an entry for high bias risk
  when its overall risk exceeds 0.6. It has at most 10 entries; a rejection entry stands
  before the high-bias entry of the same item, and entries of different items keep the
  order of the batch.
\<close>

theorem main_issues_in_batch_order:
  "identify_main_issues results = take 10 (concat (map item_issues results))
   \<and> item_issues r = (if status (review r) = ''rejected'' then [rejection_issue r] else [])
                     @ (if result_risk r > 0.6 then [high_bias_issue r] else [])
   \<and> length (identify_main_issues results) \<le> 10"
  by (simp add: identify_main_issues_def foldl_add_issues item_issues_def)

end
